theory Spec2Isabelle
  imports Complex_Main
begin

section \<open>Python values, exceptions and the library functions the module calls\<close>

text \<open>
  The module \<open>concore.py\<close> is dynamically typed: every argument of \<open>read\<close>,
  \<open>write\<close> and \<open>initval\<close> is an arbitrary Python value. Values are modelled by the
  datatype \<open>pyval\<close>. Strings are lists of 8-bit characters (code points below 256).
  Floats are idealised as reals: rounding, \<open>inf\<close> and \<open>nan\<close> are outside the model.
  \<open>PNumpy x\<close> is a numpy numeric scalar (an instance of \<open>np.generic\<close>) whose
  \<open>.item()\<close> is the native value \<open>x\<close>; \<open>literal_eval\<close> never yields one. A dict is
  an association list in insertion order.
\<close>

datatype pyval =
    PNone
  | PBool bool
  | PInt int
  | PFloat real
  | PStr string
  | PList "pyval list"
  | PTuple "pyval list"
  | PDict "(pyval \<times> pyval) list"
  | PNumpy pyval

text \<open>
  The exception classes the module distinguishes in its \<open>except\<close> clauses.
  \<open>ZMQAgain\<close> is \<open>zmq.Again\<close>, a subclass of \<open>zmq.error.ZMQError\<close>;
  \<open>OtherException\<close> stands for every other subclass of \<open>Exception\<close>.
\<close>

datatype pyexc =
    SyntaxError
  | ValueError
  | TypeError
  | FileNotFoundError
  | ZMQAgain
  | ZMQError
  | OtherException

text \<open>
  \<open>ast.literal_eval\<close> and \<open>repr\<close> belong to the Python library, not to the module.
  They are parameters of the model: a theorem stated for a library \<open>L\<close> holds for
  whatever the two functions compute.
\<close>

record pylib =
  literal_eval :: "string \<Rightarrow> pyexc + pyval"
  repr :: "pyval \<Rightarrow> string"

text \<open>\<open>str(x)\<close>: a string is its own text, every other value prints as its \<open>repr\<close>.\<close>

fun py_str :: "pylib \<Rightarrow> pyval \<Rightarrow> string" where
  "py_str L (PStr t) = t"
| "py_str L v = repr L v"

text \<open>\<open>isinstance(x, str)\<close>, \<open>isinstance(x, list)\<close>, \<open>isinstance(x, (int, float))\<close>.
  \<open>bool\<close> is a subclass of \<open>int\<close>.\<close>

fun is_str :: "pyval \<Rightarrow> bool" where
  "is_str (PStr t) = True"
| "is_str v = False"

fun is_list :: "pyval \<Rightarrow> bool" where
  "is_list (PList xs) = True"
| "is_list v = False"

fun is_int_or_float :: "pyval \<Rightarrow> bool" where
  "is_int_or_float (PBool b) = True"
| "is_int_or_float (PInt i) = True"
| "is_int_or_float (PFloat r) = True"
| "is_int_or_float v = False"

text \<open>The numeric value of a native number.\<close>

fun num_val :: "pyval \<Rightarrow> real" where
  "num_val (PBool b) = (if b then 1 else 0)"
| "num_val (PInt i) = of_int i"
| "num_val (PFloat r) = r"
| "num_val v = 0"

fun is_int_like :: "pyval \<Rightarrow> bool" where
  "is_int_like (PBool b) = True"
| "is_int_like (PInt i) = True"
| "is_int_like v = False"

fun int_val :: "pyval \<Rightarrow> int" where
  "int_val (PBool b) = (if b then 1 else 0)"
| "int_val (PInt i) = i"
| "int_val v = 0"

fun np_item :: "pyval \<Rightarrow> pyval" where
  "np_item (PNumpy x) = x"
| "np_item v = v"

fun is_numpy :: "pyval \<Rightarrow> bool" where
  "is_numpy (PNumpy x) = True"
| "is_numpy v = False"

text \<open>
  \<open>max(a, b)\<close> on two arguments returns \<open>b\<close> only when \<open>b > a\<close>, so the first
  argument wins a tie and keeps its type. Comparing a number with a value that is not
  a number raises \<open>TypeError\<close>.
\<close>

definition py_max :: "pyval \<Rightarrow> pyval \<Rightarrow> pyexc + pyval" where
  "py_max a b =
     (if is_int_or_float (np_item a) \<and> is_int_or_float (np_item b)
      then Inr (if num_val (np_item b) > num_val (np_item a) then b else a)
      else Inl TypeError)"

text \<open>
  \<open>a + b\<close>: two ints or bools give an int, a float operand gives a float, two strings,
  lists or tuples are concatenated, a numpy scalar operand gives a numpy scalar, anything
  else raises \<open>TypeError\<close>.
\<close>

definition py_add :: "pyval \<Rightarrow> pyval \<Rightarrow> pyexc + pyval" where
  "py_add a b =
     (let a' = np_item a; b' = np_item b;
          r = (if is_int_like a' \<and> is_int_like b' then Inr (PInt (int_val a' + int_val b'))
               else if is_int_or_float a' \<and> is_int_or_float b'
                 then Inr (PFloat (num_val a' + num_val b'))
               else (case (a', b') of
                       (PStr x, PStr y) \<Rightarrow> Inr (PStr (x @ y))
                     | (PList x, PList y) \<Rightarrow> Inr (PList (x @ y))
                     | (PTuple x, PTuple y) \<Rightarrow> Inr (PTuple (x @ y))
                     | _ \<Rightarrow> Inl TypeError))
      in if is_numpy a \<or> is_numpy b then map_sum id PNumpy r else r)"

section \<open>Strings, paths and conversions of the Python library\<close>

text \<open>\<open>str.isspace\<close> on code points below 256, which is what \<open>str.strip()\<close> removes.\<close>

definition is_space :: "char \<Rightarrow> bool" where
  "is_space c =
     (let n = (of_char c :: nat)
      in (9 \<le> n \<and> n \<le> 13) \<or> (28 \<le> n \<and> n \<le> 32) \<or> n = 133 \<or> n = 160)"

definition strip :: "string \<Rightarrow> string" where
  "strip t = rev (dropWhile is_space (rev (dropWhile is_space t)))"

text \<open>\<open>t.split(c)\<close> for a one-character separator: never empty, \<open>"".split(c) = [""]\<close>.\<close>

fun split_on :: "char \<Rightarrow> string \<Rightarrow> string list" where
  "split_on c [] = [[]]"
| "split_on c (x # xs) =
     (if x = c then [] # split_on c xs
      else (case split_on c xs of [] \<Rightarrow> [[x]] | h # r \<Rightarrow> (x # h) # r))"


definition startswith :: "string \<Rightarrow> string \<Rightarrow> bool" where
  "startswith t p = (take (length p) t = p)"

definition endswith :: "string \<Rightarrow> string \<Rightarrow> bool" where
  "endswith t p = (length p \<le> length t \<and> drop (length t - length p) t = p)"

text \<open>\<open>str(n)\<close> for an int: decimal digits, with a minus sign when negative.\<close>

definition digit_char :: "nat \<Rightarrow> char" where
  "digit_char d = char_of (48 + d)"

function str_nat :: "nat \<Rightarrow> string" where
  "str_nat n = (if n < 10 then [digit_char n] else str_nat (n div 10) @ [digit_char (n mod 10)])"
  by pat_completeness auto
termination
  by (relation "measure (\<lambda>n. n)") auto

declare str_nat.simps [simp del]

definition str_int :: "int \<Rightarrow> string" where
  "str_int i = (if i < 0 then CHR ''-'' # str_nat (nat (- i)) else str_nat (nat i))"

text \<open>
  \<open>int(x)\<close>. A string is stripped, may carry one sign, and is a run of decimal digits in
  which single underscores may separate digits; any other text raises \<open>ValueError\<close>.
  A float is truncated towards zero. \<open>None\<close>, lists, tuples and dicts raise
  \<open>TypeError\<close>.
\<close>

definition is_digit :: "char \<Rightarrow> bool" where
  "is_digit c = (let n = (of_char c :: nat) in 48 \<le> n \<and> n \<le> 57)"

definition digits_val :: "string \<Rightarrow> int" where
  "digits_val ds = foldl (\<lambda>acc c. 10 * acc + (int (of_char c) - 48)) 0 ds"

definition int_of_text :: "string \<Rightarrow> pyexc + int" where
  "int_of_text t =
     (let u = strip t;
          neg = (u \<noteq> [] \<and> hd u = CHR ''-'');
          ds = (if u \<noteq> [] \<and> (hd u = CHR ''-'' \<or> hd u = CHR ''+'') then tl u else u);
          groups = split_on CHR ''_'' ds
      in if list_all (\<lambda>g. g \<noteq> [] \<and> list_all is_digit g) groups
         then Inr ((if neg then - 1 else 1) * digits_val (concat groups))
         else Inl ValueError)"

fun py_int :: "pyval \<Rightarrow> pyexc + int" where
  "py_int (PInt i) = Inr i"
| "py_int (PBool b) = Inr (if b then 1 else 0)"
| "py_int (PFloat r) = Inr (if 0 \<le> r then \<lfloor>r\<rfloor> else \<lceil>r\<rceil>)"
| "py_int (PStr t) = int_of_text t"
| "py_int (PNumpy x) = py_int x"
| "py_int v = Inl TypeError"

text \<open>
  \<open>os.path.join(a, b)\<close> on POSIX: an absolute \<open>b\<close> replaces \<open>a\<close>; otherwise the parts
  are joined by one slash. A second part that is not a string raises \<open>TypeError\<close>.
\<close>

fun os_path_join :: "string \<Rightarrow> pyval \<Rightarrow> pyexc + string" where
  "os_path_join a (PStr b) =
     Inr (if startswith b ''/'' then b
          else if a = [] \<or> endswith a ''/'' then a @ b
          else a @ ''/'' @ b)"
| "os_path_join a v = Inl TypeError"

text \<open>\<open>d[k] = v\<close> on a dict: an existing key keeps its place, a new one goes last.\<close>

fun dict_set :: "(pyval \<times> pyval) list \<Rightarrow> pyval \<Rightarrow> pyval \<Rightarrow> (pyval \<times> pyval) list" where
  "dict_set [] k v = [(k, v)]"
| "dict_set ((k', v') # d) k v = (if k' = k then (k', v) # d else (k', v') # dict_set d k v)"

section \<open>Process-wide state and its environment\<close>

text \<open>
  A path of the file system holds text, is missing, or cannot be read (\<open>open\<close> raises
  an exception other than \<open>FileNotFoundError\<close>).
\<close>

datatype fnode = Missing | Content string | Unreadable

text \<open>
  A registered ZeroMQ socket. Its behaviour is given by the environment: the outcome of
  \<open>send_json\<close> (\<open>None\<close> when the message went out) and of \<open>recv_json\<close>, at each tick.
\<close>

record zport =
  send_json :: "nat \<Rightarrow> pyval \<Rightarrow> pyexc option"
  recv_json :: "nat \<Rightarrow> pyexc + pyval"

text \<open>What the module logs, by the message it formats.\<close>

datatype logmsg =
    ZmqSendTimeout nat
  | ZmqSendFailed
  | ZmqRecvTimeout nat
  | ZmqRecvFailed
  | ZmqReadError
  | ZmqReadUnexpected
  | ZmqWriteError
  | ZmqWriteUnexpected
  | InvalidPortIdentifier
  | ReadFileError
  | RetryError nat
  | MaxRetriesReached
  | UnexpectedDataFormat
  | ParseContentError
  | UnsupportedWriteType
  | WriteFileError
  | InitvalFirstNotNumber
  | InitvalNotList
  | InitvalParseError

datatype event =
    Sleep real
  | OpenRead string
  | OpenWrite string
  | FileWrite string string
  | SendJson string pyval
  | RecvJson string
  | Log logmsg

text \<open>
  The module's globals (\<open>s\<close>, \<open>olds\<close>, \<open>delay\<close>, \<open>retrycount\<close>, \<open>inpath\<close>,
  \<open>outpath\<close>, \<open>simtime\<close>, \<open>zmq_ports\<close>) and the world around them. The global \<open>s\<close>
  is the field \<open>s_acc\<close>. Other processes act on the files while this one sleeps:
  \<open>peer k\<close> is what they do to the file system during the \<open>k\<close>-th sleep. \<open>writable p\<close>
  says whether \<open>open(p, "w")\<close> succeeds. \<open>trace\<close> records every effect, oldest first.
\<close>

record world =
  s_acc :: string
  olds :: string
  delay :: real
  retrycount :: int
  inpath :: string
  outpath :: string
  simtime :: pyval
  zmq_ports :: "string \<Rightarrow> zport option"
  files :: "string \<Rightarrow> fnode"
  writable :: "string \<Rightarrow> bool"
  peer :: "nat \<Rightarrow> (string \<Rightarrow> fnode) \<Rightarrow> string \<Rightarrow> fnode"
  tick :: nat
  trace :: "event list"

definition emit :: "event \<Rightarrow> world \<Rightarrow> world" where
  "emit e w = w\<lparr>trace := trace w @ [e]\<rparr>"

text \<open>
  \<open>time.sleep(d)\<close> raises \<open>ValueError\<close> for a negative length; otherwise the peers
  take their turn.
\<close>

definition sleep :: "real \<Rightarrow> world \<Rightarrow> pyexc + world" where
  "sleep d w =
     (if d < 0 then Inl ValueError
      else Inr ((emit (Sleep d) w)\<lparr>files := peer w (tick w) (files w), tick := Suc (tick w)\<rparr>))"

text \<open>\<open>with open(path, "r") as f: f.read()\<close>\<close>

definition open_read :: "string \<Rightarrow> world \<Rightarrow> (pyexc + string) \<times> world" where
  "open_read p w =
     (case files w p of
        Missing \<Rightarrow> Inl FileNotFoundError
      | Unreadable \<Rightarrow> Inl OtherException
      | Content c \<Rightarrow> Inr c,
      emit (OpenRead p) w)"

section \<open>ZeroMQPort\<close>

text \<open>
  \<^verbatim>\<open>
  def send_json_with_retry(self, message):
      for attempt in range(5):
          try:
              self.socket.send_json(message)
              return
          except zmq.Again:
              logging.warning(f"Send timeout (attempt {attempt + 1}/5)")
              time.sleep(0.5)
      logging.error("Failed to send after retries.")
      return
  \<close>
  The loop runs over the list of attempt numbers. An exception other than \<open>zmq.Again\<close>
  leaves the method.
\<close>

fun send_attempts :: "string \<Rightarrow> zport \<Rightarrow> pyval \<Rightarrow> nat list \<Rightarrow> world \<Rightarrow> pyexc option \<times> world" where
  "send_attempts nm p message [] w = (None, emit (Log ZmqSendFailed) w)"
| "send_attempts nm p message (attempt # rest) w =
     (let w1 = emit (SendJson nm message) w
      in case send_json p (tick w1) message of
           None \<Rightarrow> (None, w1)
         | Some e \<Rightarrow>
             if e = ZMQAgain
             then (case sleep (1 / 2) (emit (Log (ZmqSendTimeout (attempt + 1))) w1) of
                     Inl e' \<Rightarrow> (Some e', w1)
                   | Inr w2 \<Rightarrow> send_attempts nm p message rest w2)
             else (Some e, w1))"

definition send_json_with_retry :: "string \<Rightarrow> zport \<Rightarrow> pyval \<Rightarrow> world \<Rightarrow> pyexc option \<times> world" where
  "send_json_with_retry nm p message w = send_attempts nm p message [0..<5] w"

text \<open>
  \<^verbatim>\<open>
  def recv_json_with_retry(self):
      for attempt in range(5):
          try:
              return self.socket.recv_json()
          except zmq.Again:
              logging.warning(f"Receive timeout (attempt {attempt + 1}/5)")
              time.sleep(0.5)
      logging.error("Failed to receive after retries.")
      return None
  \<close>
\<close>

fun recv_attempts :: "string \<Rightarrow> zport \<Rightarrow> nat list \<Rightarrow> world \<Rightarrow> (pyexc + pyval) \<times> world" where
  "recv_attempts nm p [] w = (Inr PNone, emit (Log ZmqRecvFailed) w)"
| "recv_attempts nm p (attempt # rest) w =
     (let w1 = emit (RecvJson nm) w
      in case recv_json p (tick w1) of
           Inr message \<Rightarrow> (Inr message, w1)
         | Inl e \<Rightarrow>
             if e = ZMQAgain
             then (case sleep (1 / 2) (emit (Log (ZmqRecvTimeout (attempt + 1))) w1) of
                     Inl e' \<Rightarrow> (Inl e', w1)
                   | Inr w2 \<Rightarrow> recv_attempts nm p rest w2)
             else (Inl e, w1))"

definition recv_json_with_retry :: "string \<Rightarrow> zport \<Rightarrow> world \<Rightarrow> (pyexc + pyval) \<times> world" where
  "recv_json_with_retry nm p w = recv_attempts nm p [0..<5] w"

text \<open>
  \<open>isinstance(port_identifier, str) and port_identifier in zmq_ports\<close>, with the port
  found.
\<close>

fun registered :: "world \<Rightarrow> pyval \<Rightarrow> (string \<times> zport) option" where
  "registered w (PStr nm) = (case zmq_ports w nm of None \<Rightarrow> None | Some p \<Rightarrow> Some (nm, p))"
| "registered w v = None"

text \<open>\<open>except zmq.error.ZMQError\<close> catches \<open>zmq.Again\<close> too.\<close>

definition is_zmq_error :: "pyexc \<Rightarrow> bool" where
  "is_zmq_error e = (e = ZMQError \<or> e = ZMQAgain)"

section \<open>convert_numpy_to_python\<close>

text \<open>
  \<^verbatim>\<open>
  def convert_numpy_to_python(obj):
      if isinstance(obj, np.generic):
          return obj.item()
      elif isinstance(obj, list):
          return [convert_numpy_to_python(item) for item in obj]
      elif isinstance(obj, tuple):
          return tuple(convert_numpy_to_python(item) for item in obj)
      elif isinstance(obj, dict):
          return {key: convert_numpy_to_python(value) for key, value in obj.items()}
      else:
          return obj
  \<close>
  The keys of a dict are kept as they are.
\<close>

fun convert_numpy_to_python :: "pyval \<Rightarrow> pyval" where
  "convert_numpy_to_python (PNumpy x) = x"
| "convert_numpy_to_python (PList xs) = PList (map convert_numpy_to_python xs)"
| "convert_numpy_to_python (PTuple xs) = PTuple (map convert_numpy_to_python xs)"
| "convert_numpy_to_python (PDict kvs) =
     PDict (map (\<lambda>kv. (fst kv, convert_numpy_to_python (snd kv))) kvs)"
| "convert_numpy_to_python v = v"

section \<open>parse_params\<close>





section \<open>unchanged\<close>

text \<open>
  \<^verbatim>\<open>
  def unchanged():
      global olds, s
      if olds == s:
          s = ''
          return True
      olds = s
      return False
  \<close>
\<close>

definition unchanged :: "world \<Rightarrow> bool \<times> world" where
  "unchanged w =
     (if olds w = s_acc w then (True, w\<lparr>s_acc := ''''\<rparr>)
      else (False, w\<lparr>olds := s_acc w\<rparr>))"

section \<open>read\<close>

text \<open>
  \<^verbatim>\<open>
  default_return_val = initstr_val
  if isinstance(initstr_val, str):
      try:
          default_return_val = literal_eval(initstr_val)
      except (SyntaxError, ValueError):
          pass
  \<close>
\<close>

fun default_return_val :: "pylib \<Rightarrow> pyval \<Rightarrow> pyexc + pyval" where
  "default_return_val L (PStr t) =
     (case literal_eval L t of
        Inr v \<Rightarrow> Inr v
      | Inl e \<Rightarrow> if e = SyntaxError \<or> e = ValueError then Inr (PStr t) else Inl e)"
| "default_return_val L v = Inr v"

text \<open>
  \<^verbatim>\<open>
  attempts = 0
  max_retries = 5
  while len(ins) == 0 and attempts < max_retries:
      time.sleep(delay)
      try:
          with open(file_path, "r") as infile:
              ins = infile.read()
      except Exception as e:
          logging.warning(f"Retry {attempts + 1}: Error reading {file_path} - {e}")
      attempts += 1
      retrycount += 1
  \<close>
  The loop returns the text it ends with, the number of attempts and the world.
  \<open>time.sleep\<close> stands outside the \<open>try\<close>.
\<close>

definition max_retries :: nat where
  "max_retries = 5"

function retry_loop :: "string \<Rightarrow> string \<Rightarrow> nat \<Rightarrow> world \<Rightarrow> pyexc + (string \<times> nat \<times> world)" where
  "retry_loop file_path ins attempts w =
     (if length ins = 0 \<and> attempts < max_retries
      then (case sleep (delay w) w of
              Inl e \<Rightarrow> Inl e
            | Inr w1 \<Rightarrow>
                (case open_read file_path w1 of
                   (Inr c, w2) \<Rightarrow>
                     retry_loop file_path c (attempts + 1) (w2\<lparr>retrycount := retrycount w2 + 1\<rparr>)
                 | (Inl e, w2) \<Rightarrow>
                     retry_loop file_path ins (attempts + 1)
                       ((emit (Log (RetryError (attempts + 1))) w2)\<lparr>retrycount := retrycount w2 + 1\<rparr>)))
      else Inr (ins, attempts, w))"
  by pat_completeness auto
termination
  by (relation "measure (\<lambda>(file_path, ins, attempts, w). max_retries - attempts)") auto

declare retry_loop.simps [simp del]

text \<open>
  \<^verbatim>\<open>
  try:
      inval = literal_eval(ins)
      if isinstance(inval, list) and len(inval) > 0:
          current_simtime_from_file = inval[0]
          if isinstance(current_simtime_from_file, (int, float)):
               simtime = max(simtime, current_simtime_from_file)
          return inval[1:]
      else:
          logging.warning(...)
          return inval
  except Exception as e:
      logging.error(...)
      return default_return_val
  \<close>
\<close>

definition parse_content :: "pylib \<Rightarrow> string \<Rightarrow> pyval \<Rightarrow> world \<Rightarrow> pyval \<times> world" where
  "parse_content L ins dflt w =
     (case literal_eval L ins of
        Inl e \<Rightarrow> (dflt, emit (Log ParseContentError) w)
      | Inr inval \<Rightarrow>
          (case inval of
             PList (current_simtime_from_file # rest) \<Rightarrow>
               if is_int_or_float current_simtime_from_file
               then (case py_max (simtime w) current_simtime_from_file of
                       Inl e \<Rightarrow> (dflt, emit (Log ParseContentError) w)
                     | Inr m \<Rightarrow> (PList rest, w\<lparr>simtime := m\<rparr>))
               else (PList rest, w)
           | _ \<Rightarrow> (inval, emit (Log UnexpectedDataFormat) w)))"

text \<open>
  Lines 273 to 317 of \<open>read\<close>: the first attempt on the file, the retries while the
  text is empty, the update of \<open>s\<close>, and the parse.
\<close>

definition after_first_read :: "pylib \<Rightarrow> string \<Rightarrow> pyval \<Rightarrow> string \<Rightarrow> world \<Rightarrow> (pyexc + pyval) \<times> world" where
  "after_first_read L file_path dflt ins0 w =
     (case retry_loop file_path ins0 0 w of
        Inl e \<Rightarrow> (Inl e, w)
      | Inr (ins, attempts, w1) \<Rightarrow>
          if length ins = 0 then (Inr dflt, emit (Log MaxRetriesReached) w1)
          else (case parse_content L ins dflt (w1\<lparr>s_acc := s_acc w1 @ ins\<rparr>) of
                  (v, w2) \<Rightarrow> (Inr v, w2)))"

definition read_file :: "pylib \<Rightarrow> string \<Rightarrow> pyval \<Rightarrow> pyval \<Rightarrow> world \<Rightarrow> (pyexc + pyval) \<times> world" where
  "read_file L file_path initstr_val dflt w =
     (case open_read file_path w of
        (Inr c, w1) \<Rightarrow> after_first_read L file_path dflt c w1
      | (Inl e, w1) \<Rightarrow>
          if e = FileNotFoundError
          then (let ins = py_str L initstr_val
                in after_first_read L file_path dflt ins (w1\<lparr>s_acc := s_acc w1 @ ins\<rparr>))
          else (Inr dflt, emit (Log ReadFileError) w1))"

text \<open>
  \<open>read(port_identifier, name, initstr_val)\<close>: the result is the returned value or the
  exception that leaves the function, with the world afterwards.
\<close>

definition read :: "pylib \<Rightarrow> pyval \<Rightarrow> pyval \<Rightarrow> pyval \<Rightarrow> world \<Rightarrow> (pyexc + pyval) \<times> world" where
  "read L port_identifier name initstr_val w =
     (case default_return_val L initstr_val of
        Inl e \<Rightarrow> (Inl e, w)
      | Inr dflt \<Rightarrow>
          (case registered w port_identifier of
             Some (nm, zmq_p) \<Rightarrow>
               (case recv_json_with_retry nm zmq_p w of
                  (Inr message, w1) \<Rightarrow> (Inr message, w1)
                | (Inl e, w1) \<Rightarrow>
                    (Inr dflt, emit (Log (if is_zmq_error e then ZmqReadError else ZmqReadUnexpected)) w1))
           | None \<Rightarrow>
               (case py_int port_identifier of
                  Inl e \<Rightarrow>
                    if e = ValueError then (Inr dflt, emit (Log InvalidPortIdentifier) w)
                    else (Inl e, w)
                | Inr file_port_num \<Rightarrow>
                    (case sleep (delay w) w of
                       Inl e \<Rightarrow> (Inl e, w)
                     | Inr w1 \<Rightarrow>
                         (case os_path_join (inpath w1 @ str_int file_port_num) name of
                            Inl e \<Rightarrow> (Inl e, w1)
                          | Inr file_path \<Rightarrow> read_file L file_path initstr_val dflt w1)))))"

section \<open>write\<close>

text \<open>
  \<^verbatim>\<open>
  try:
      with open(file_path, "w") as outfile:
          if isinstance(val, list):
              val_converted = convert_numpy_to_python(val)
              data_to_write = [simtime + delta] + val_converted
              outfile.write(str(data_to_write))
              simtime += delta
          else:
              outfile.write(val)
  except Exception as e:
      logging.error(f"Error writing to {file_path}: {e}")
  \<close>
  Opening for writing truncates the file; an exception raised after that leaves it empty.
\<close>

definition write_file :: "pylib \<Rightarrow> string \<Rightarrow> pyval \<Rightarrow> pyval \<Rightarrow> world \<Rightarrow> world" where
  "write_file L file_path val delta w =
     (if \<not> writable w file_path then emit (Log WriteFileError) w
      else (let w1 = (emit (OpenWrite file_path) w)\<lparr>files := (files w)(file_path := Content [])\<rparr>
            in case val of
                 PList xs \<Rightarrow>
                   (case convert_numpy_to_python val of
                      PList val_converted \<Rightarrow>
                        (case py_add (simtime w1) delta of
                           Inl e \<Rightarrow> emit (Log WriteFileError) w1
                         | Inr t \<Rightarrow>
                             (let text = py_str L (PList (t # val_converted))
                              in (emit (FileWrite file_path text) w1)
                                   \<lparr>files := (files w1)(file_path := Content text), simtime := t\<rparr>))
                    | _ \<Rightarrow> emit (Log WriteFileError) w1)
               | PStr t \<Rightarrow>
                   (emit (FileWrite file_path t) w1)\<lparr>files := (files w1)(file_path := Content t)\<rparr>
               | _ \<Rightarrow> emit (Log WriteFileError) w1))"

text \<open>
  \<^verbatim>\<open>
  def write(port_identifier, name, val, delta=0):
      global simtime
      if isinstance(port_identifier, str) and port_identifier in zmq_ports:
          zmq_p = zmq_ports[port_identifier]
          try:
              zmq_p.send_json_with_retry(val)
          except zmq.error.ZMQError as e:
              logging.error(...)
          except Exception as e:
              logging.error(...)
      try:
          file_port_num = int(port_identifier)
          file_path = os.path.join(outpath + str(file_port_num), name)
      except ValueError:
          logging.error(...)
          return
      if isinstance(val, str):
          time.sleep(2 * delay)
      elif not isinstance(val, list):
          logging.error(...)
          return
      ...
  \<close>
  The socket branch has no \<open>return\<close>: control goes on to the file branch. The result is
  the exception that leaves the function, if any, with the world afterwards. The
  function is named \<open>concore_write\<close> here, \<open>write\<close> being a keyword of Isabelle.
\<close>

definition zmq_branch :: "pyval \<Rightarrow> pyval \<Rightarrow> world \<Rightarrow> world" where
  "zmq_branch port_identifier val w =
     (case registered w port_identifier of
        None \<Rightarrow> w
      | Some (nm, zmq_p) \<Rightarrow>
          (case send_json_with_retry nm zmq_p val w of
             (None, w1) \<Rightarrow> w1
           | (Some e, w1) \<Rightarrow>
               emit (Log (if is_zmq_error e then ZmqWriteError else ZmqWriteUnexpected)) w1))"

definition resolve_out_path :: "pyval \<Rightarrow> pyval \<Rightarrow> world \<Rightarrow> pyexc + string" where
  "resolve_out_path port_identifier name w =
     (case py_int port_identifier of
        Inl e \<Rightarrow> Inl e
      | Inr file_port_num \<Rightarrow> os_path_join (outpath w @ str_int file_port_num) name)"

definition concore_write :: "pylib \<Rightarrow> pyval \<Rightarrow> pyval \<Rightarrow> pyval \<Rightarrow> pyval \<Rightarrow> world \<Rightarrow> pyexc option \<times> world" where
  "concore_write L port_identifier name val delta w =
     (let w1 = zmq_branch port_identifier val w
      in case resolve_out_path port_identifier name w1 of
           Inl e \<Rightarrow>
             if e = ValueError then (None, emit (Log InvalidPortIdentifier) w1)
             else (Some e, w1)
         | Inr file_path \<Rightarrow>
             if is_str val
             then (case sleep (2 * delay w1) w1 of
                     Inl e \<Rightarrow> (Some e, w1)
                   | Inr w2 \<Rightarrow> (None, write_file L file_path val delta w2))
             else if \<not> is_list val then (None, emit (Log UnsupportedWriteType) w1)
             else (None, write_file L file_path val delta w1))"

section \<open>initval\<close>

text \<open>
  \<^verbatim>\<open>
  def initval(simtime_val_str):
      global simtime
      try:
          val = literal_eval(simtime_val_str)
          if isinstance(val, list) and len(val) > 0:
              first_element = val[0]
              if isinstance(first_element, (int, float)):
                  simtime = first_element
                  return val[1:]
              else:
                  logging.error(...)
                  return val[1:] if len(val) > 1 else []
          else:
              logging.error(...)
              return []
      except Exception as e:
          logging.error(...)
          return []
  \<close>
\<close>

definition initval :: "pylib \<Rightarrow> string \<Rightarrow> world \<Rightarrow> pyval \<times> world" where
  "initval L simtime_val_str w =
     (case literal_eval L simtime_val_str of
        Inl e \<Rightarrow> (PList [], emit (Log InitvalParseError) w)
      | Inr val \<Rightarrow>
          (case val of
             PList (first_element # rest) \<Rightarrow>
               if is_int_or_float first_element
               then (PList rest, w\<lparr>simtime := first_element\<rparr>)
               else (if length (first_element # rest) > 1 then PList rest else PList [],
                     emit (Log InitvalFirstNotNumber) w)
           | _ \<Rightarrow> (PList [], emit (Log InitvalNotList) w)))"

section \<open>A concrete library and a concrete world\<close>

text \<open>
  For running the model on examples, a stand-in for \<open>ast.literal_eval\<close> and \<open>repr\<close> on
  a fragment of the literals: decimal ints with an optional sign, strings in single or
  double quotes without escapes, the names \<open>True\<close>, \<open>False\<close>, \<open>None\<close>, lists and dicts
  of these, with blanks between tokens. As in Python, the text is parsed first
  (\<open>SyntaxError\<close>), then converted: any other name is a malformed node
  (\<open>ValueError\<close>), a list or dict used as a key is unhashable (\<open>TypeError\<close>). Text
  outside the fragment (floats, tuples, escapes, operators) is answered with
  \<open>SyntaxError\<close>, which need not be what Python answers; the stand-in is applied to
  texts of the fragment only.
\<close>

datatype lit =
    LName string
  | LInt int
  | LNeg lit
  | LPos lit
  | LStr string
  | LList "lit list"
  | LDict "(lit \<times> lit) list"

definition is_blank :: "char \<Rightarrow> bool" where
  "is_blank c = (c = CHR '' '' \<or> c = CHR 0x09)"

definition is_ident_start :: "char \<Rightarrow> bool" where
  "is_ident_start c =
     (let n = (of_char c :: nat) in (65 \<le> n \<and> n \<le> 90) \<or> (97 \<le> n \<and> n \<le> 122) \<or> n = 95)"

definition is_ident_char :: "char \<Rightarrow> bool" where
  "is_ident_char c = (is_ident_start c \<or> is_digit c)"

definition lex_number :: "string \<Rightarrow> (lit \<times> string) option" where
  "lex_number cs =
     (let ds = takeWhile is_digit cs; r = dropWhile is_digit cs
      in if (r \<noteq> [] \<and> (is_ident_char (hd r) \<or> hd r = CHR ''.''))
            \<or> (length ds > 1 \<and> hd ds = CHR ''0'' \<and> \<not> list_all (\<lambda>c. c = CHR ''0'') ds)
         then None else Some (LInt (digits_val ds), r))"

definition lex_string :: "char \<Rightarrow> string \<Rightarrow> (lit \<times> string) option" where
  "lex_string q cs =
     (let body = takeWhile (\<lambda>c. c \<noteq> q) cs; r = dropWhile (\<lambda>c. c \<noteq> q) cs
      in if r = [] \<or> CHR 0x5C \<in> set body \<or> CHR 0x0A \<in> set body \<or> take 1 (drop 1 r) = [q]
         then None else Some (LStr body, drop 1 r))"

fun parse_expr :: "nat \<Rightarrow> string \<Rightarrow> (lit \<times> string) option"
  and parse_elems :: "nat \<Rightarrow> string \<Rightarrow> (lit list \<times> string) option"
  and parse_pairs :: "nat \<Rightarrow> string \<Rightarrow> ((lit \<times> lit) list \<times> string) option" where
  "parse_expr 0 cs = None"
| "parse_expr (Suc n) cs =
     (case dropWhile is_blank cs of
        [] \<Rightarrow> None
      | c # r \<Rightarrow>
          if c = CHR ''['' then map_option (\<lambda>(xs, r'). (LList xs, r')) (parse_elems n r)
          else if c = CHR ''{'' then map_option (\<lambda>(kvs, r'). (LDict kvs, r')) (parse_pairs n r)
          else if c = CHR ''-'' then map_option (\<lambda>(e, r'). (LNeg e, r')) (parse_expr n r)
          else if c = CHR ''+'' then map_option (\<lambda>(e, r'). (LPos e, r')) (parse_expr n r)
          else if is_digit c then lex_number (c # r)
          else if c = CHR 0x27 \<or> c = CHR 0x22 then lex_string c r
          else if is_ident_start c
            then Some (LName (takeWhile is_ident_char (c # r)), dropWhile is_ident_char (c # r))
          else None)"
| "parse_elems 0 cs = None"
| "parse_elems (Suc n) cs =
     (case dropWhile is_blank cs of
        [] \<Rightarrow> None
      | c # r \<Rightarrow>
          if c = CHR '']'' then Some ([], r)
          else (case parse_expr n (c # r) of
                  None \<Rightarrow> None
                | Some (e, r1) \<Rightarrow>
                    (case dropWhile is_blank r1 of
                       [] \<Rightarrow> None
                     | d # r2 \<Rightarrow>
                         if d = CHR '','' then map_option (\<lambda>(es, r'). (e # es, r')) (parse_elems n r2)
                         else if d = CHR '']'' then Some ([e], r2)
                         else None)))"
| "parse_pairs 0 cs = None"
| "parse_pairs (Suc n) cs =
     (case dropWhile is_blank cs of
        [] \<Rightarrow> None
      | c # r \<Rightarrow>
          if c = CHR ''}'' then Some ([], r)
          else (case parse_expr n (c # r) of
                  None \<Rightarrow> None
                | Some (k, r1) \<Rightarrow>
                    (case dropWhile is_blank r1 of
                       [] \<Rightarrow> None
                     | d # r2 \<Rightarrow>
                         if d \<noteq> CHR '':'' then None
                         else (case parse_expr n r2 of
                                 None \<Rightarrow> None
                               | Some (v, r3) \<Rightarrow>
                                   (case dropWhile is_blank r3 of
                                      [] \<Rightarrow> None
                                    | f # r4 \<Rightarrow>
                                        if f = CHR '','' then
                                          map_option (\<lambda>(kvs, r'). ((k, v) # kvs, r')) (parse_pairs n r4)
                                        else if f = CHR ''}'' then Some ([(k, v)], r4)
                                        else None)))))"

fun collect :: "(pyexc + pyval) list \<Rightarrow> pyexc + pyval list" where
  "collect [] = Inr []"
| "collect (x # xs) =
     (case x of
        Inl e \<Rightarrow> Inl e
      | Inr v \<Rightarrow> (case collect xs of Inl e \<Rightarrow> Inl e | Inr vs \<Rightarrow> Inr (v # vs)))"

fun unhashable :: "pyval \<Rightarrow> bool" where
  "unhashable (PList xs) = True"
| "unhashable (PDict kvs) = True"
| "unhashable v = False"

fun build_dict :: "(pyval \<times> pyval) list \<Rightarrow> pyval list \<Rightarrow> pyexc + pyval" where
  "build_dict d (k # v # r) = (if unhashable k then Inl TypeError else build_dict (dict_set d k v) r)"
| "build_dict d r = Inr (PDict d)"

fun convert_lit :: "lit \<Rightarrow> pyexc + pyval" where
  "convert_lit (LName x) =
     (if x = ''True'' then Inr (PBool True)
      else if x = ''False'' then Inr (PBool False)
      else if x = ''None'' then Inr PNone
      else Inl ValueError)"
| "convert_lit (LInt i) = Inr (PInt i)"
| "convert_lit (LNeg e) = (case e of LInt i \<Rightarrow> Inr (PInt (- i)) | _ \<Rightarrow> Inl ValueError)"
| "convert_lit (LPos e) = (case e of LInt i \<Rightarrow> Inr (PInt i) | _ \<Rightarrow> Inl ValueError)"
| "convert_lit (LStr t) = Inr (PStr t)"
| "convert_lit (LList es) =
     (case collect (map convert_lit es) of Inl e \<Rightarrow> Inl e | Inr vs \<Rightarrow> Inr (PList vs))"
| "convert_lit (LDict kvs) =
     (case collect (concat (map (\<lambda>kv. [convert_lit (fst kv), convert_lit (snd kv)]) kvs)) of
        Inl e \<Rightarrow> Inl e
      | Inr vs \<Rightarrow> build_dict [] vs)"

definition literal_eval_frag :: "string \<Rightarrow> pyexc + pyval" where
  "literal_eval_frag t =
     (case parse_expr (2 * length t + 2) t of
        None \<Rightarrow> Inl SyntaxError
      | Some (e, r) \<Rightarrow> if dropWhile is_space r = [] then convert_lit e else Inl SyntaxError)"

fun join_with :: "string \<Rightarrow> string list \<Rightarrow> string" where
  "join_with sep [] = []"
| "join_with sep [x] = x"
| "join_with sep (x # y # r) = x @ sep @ join_with sep (y # r)"

fun repr_frag :: "pyval \<Rightarrow> string" where
  "repr_frag PNone = ''None''"
| "repr_frag (PBool b) = (if b then ''True'' else ''False'')"
| "repr_frag (PInt i) = str_int i"
| "repr_frag (PStr t) = [CHR 0x27] @ t @ [CHR 0x27]"
| "repr_frag (PList xs) = ''['' @ join_with '', '' (map repr_frag xs) @ '']''"
| "repr_frag (PDict kvs) =
     ''{'' @ join_with '', '' (map (\<lambda>kv. repr_frag (fst kv) @ '': '' @ repr_frag (snd kv)) kvs) @ ''}''"
| "repr_frag v = ''<outside the fragment>''"

definition frag_lib :: pylib where
  "frag_lib = \<lparr>literal_eval = literal_eval_frag, repr = repr_frag\<rparr>"

text \<open>
  The globals as the module initialises them (\<open>s = ''\<close>, \<open>olds = ''\<close>, \<open>delay = 1\<close>,
  \<open>retrycount = 0\<close>, \<open>inpath = "./in"\<close>, \<open>outpath = "./out"\<close>, \<open>simtime = 0\<close>,
  \<open>zmq_ports = {}\<close>), over a given file system in which every path can be written and
  no other process runs.
\<close>

definition initial_world :: "(string \<Rightarrow> fnode) \<Rightarrow> world" where
  "initial_world fs =
     \<lparr>s_acc = [], olds = [], delay = 1, retrycount = 0, inpath = ''./in'',
      outpath = ''./out'', simtime = PInt 0, zmq_ports = (\<lambda>nm. None), files = fs,
      writable = (\<lambda>p. True), peer = (\<lambda>k f. f), tick = 0, trace = []\<rparr>"

definition no_files :: "string \<Rightarrow> fnode" where
  "no_files p = Missing"

text \<open>
  A socket on which every send goes out at once and nothing ever arrives, and the
  initial world with that socket registered under a name.
\<close>

definition always_sends :: zport where
  "always_sends = \<lparr>send_json = (\<lambda>k m. None), recv_json = (\<lambda>k. Inl ZMQAgain)\<rparr>"

definition socket_world :: "string \<Rightarrow> world" where
  "socket_world nm =
     (initial_world no_files)\<lparr>zmq_ports := (\<lambda>x. if x = nm then Some always_sends else None)\<rparr>"

section \<open>The parameter grammar as the specification words it\<close>



section \<open>Properties\<close>

text \<open>
  C9. \<open>unchanged\<close> compares the accumulated read fingerprint with its value at the
  previous call. Let a first call run from \<open>w0\<close>, let anything happen to the fingerprint
  afterwards (the reads in between only touch \<open>s\<close>, never \<open>olds\<close>), and let a second
  call run from \<open>w1'\<close>. The second call returns true exactly when the fingerprint it
  finds equals the fingerprint the first call found; it then resets the fingerprint to
  the empty string, and otherwise it records the fingerprint it found as the new
  previous value, leaves the fingerprint as it is, and returns false.
\<close>

theorem unchanged_compares_with_previous_call:
  assumes "unchanged w0 = (r1, w1)"
    and "olds w1' = olds w1"
    and "unchanged w1' = (r2, w2)"
  shows "(r2 \<longleftrightarrow> s_acc w1' = s_acc w0)
       \<and> (r2 \<longrightarrow> s_acc w2 = '''' \<and> olds w2 = s_acc w0)
       \<and> (\<not> r2 \<longrightarrow> olds w2 = s_acc w1' \<and> s_acc w2 = s_acc w1')"
  using assms by (auto simp: unchanged_def split: if_splits)

theorem unchanged_compares_with_previous_call_witness:
  "unchanged ((initial_world no_files)\<lparr>s_acc := ''ab''\<rparr>)
     = (False, (initial_world no_files)\<lparr>s_acc := ''ab'', olds := ''ab''\<rparr>)
   \<and> unchanged ((initial_world no_files)\<lparr>s_acc := ''ab'', olds := ''ab''\<rparr>)
     = (True, (initial_world no_files)\<lparr>s_acc := [], olds := ''ab''\<rparr>)
   \<and> s_acc ((initial_world no_files)\<lparr>s_acc := [], olds := ''ab''\<rparr>) = []"
proof -
  let ?w0 = "(initial_world no_files)\<lparr>s_acc := ''ab''\<rparr>"
  let ?w1 = "(initial_world no_files)\<lparr>s_acc := ''ab'', olds := ''ab''\<rparr>"
  let ?w2 = "(initial_world no_files)\<lparr>s_acc := [], olds := ''ab''\<rparr>"
  have h1: "unchanged ?w0 = (False, ?w1)"
    by (simp add: unchanged_def initial_world_def)
  have h2: "unchanged ?w1 = (True, ?w2)"
    by (simp add: unchanged_def initial_world_def)
  from unchanged_compares_with_previous_call [OF h1 refl h2]
  have "s_acc ?w2 = []" by simp
  with h1 h2 show ?thesis by simp
qed

text \<open>
  C6. A file-port write of a value that is neither a string nor a list (an int, say)
  reports \<open>UnsupportedWriteType\<close> and does nothing else: no exception, no file opened
  or written, every file as it was, the logical time as it was.
\<close>

theorem unsupported_write_type_leaves_everything:
  assumes "\<not> is_str val" and "\<not> is_list val"
    and "registered w port_identifier = None"
    and "resolve_out_path port_identifier name w = Inr file_path"
  shows "concore_write L port_identifier name val delta w
           = (None, emit (Log UnsupportedWriteType) w)
       \<and> files (snd (concore_write L port_identifier name val delta w)) = files w
       \<and> simtime (snd (concore_write L port_identifier name val delta w)) = simtime w
       \<and> trace (snd (concore_write L port_identifier name val delta w))
           = trace w @ [Log UnsupportedWriteType]"
  using assms by (simp add: concore_write_def zmq_branch_def emit_def)

theorem unsupported_write_type_witness:
  "files (snd (concore_write frag_lib (PInt 1) (PStr ''u'') (PInt 5) (PInt 2)
        (initial_world (no_files(''./out1/u'' := Content ''[0, 1]''))))) ''./out1/u''
     = Content ''[0, 1]''
   \<and> simtime (snd (concore_write frag_lib (PInt 1) (PStr ''u'') (PInt 5) (PInt 2)
        (initial_world (no_files(''./out1/u'' := Content ''[0, 1]''))))) = PInt 0
   \<and> trace (snd (concore_write frag_lib (PInt 1) (PStr ''u'') (PInt 5) (PInt 2)
        (initial_world (no_files(''./out1/u'' := Content ''[0, 1]'')))))
     = [Log UnsupportedWriteType]"
proof -
  let ?w = "initial_world (no_files(''./out1/u'' := Content ''[0, 1]''))"
  have p: "resolve_out_path (PInt 1) (PStr ''u'') ?w = Inr ''./out1/u''"
    by code_simp
  have r: "registered ?w (PInt 1) = None" by simp
  have a: "\<not> is_str (PInt 5)" and b: "\<not> is_list (PInt 5)" by simp_all
  from unsupported_write_type_leaves_everything [OF a b r p, of frag_lib "PInt 2"]
  show ?thesis by (simp add: initial_world_def emit_def)
qed

text \<open>
  C8, as the code has it. When the text parses to a non-empty list whose first element
  is an int or a float, \<open>initval\<close> sets the logical time to that element and returns the
  rest (so \<open>"[5, 'a', 'b']"\<close> sets the time to 5 and returns \<open>['a', 'b']\<close>). When it
  parses to a non-empty list whose first element is not a number, \<open>initval\<close> reports an
  error, leaves the time alone and returns the rest of the list, which is empty only
  when the list has one element. In every other case (the text does not parse, or it
  parses to an empty list or to a value that is not a list) it reports an error, leaves
  the time alone and returns the empty list. It never raises.
\<close>

theorem initval_seeds_time_or_reports:
  "(literal_eval L t = Inr (PList (x # xs)) \<and> is_int_or_float x
      \<longrightarrow> initval L t w = (PList xs, w\<lparr>simtime := x\<rparr>))
 \<and> (literal_eval L t = Inr (PList (x # xs)) \<and> \<not> is_int_or_float x
      \<longrightarrow> initval L t w = (PList xs, emit (Log InitvalFirstNotNumber) w))
 \<and> ((\<forall>y ys. literal_eval L t \<noteq> Inr (PList (y # ys)))
      \<longrightarrow> fst (initval L t w) = PList []
        \<and> simtime (snd (initval L t w)) = simtime w
        \<and> (\<exists>m. snd (initval L t w) = emit (Log m) w))"
proof (intro conjI impI)
  assume "literal_eval L t = Inr (PList (x # xs)) \<and> is_int_or_float x"
  then show "initval L t w = (PList xs, w\<lparr>simtime := x\<rparr>)"
    by (simp add: initval_def)
next
  assume "literal_eval L t = Inr (PList (x # xs)) \<and> \<not> is_int_or_float x"
  then show "initval L t w = (PList xs, emit (Log InitvalFirstNotNumber) w)"
    by (cases xs) (simp_all add: initval_def)
next
  assume h: "\<forall>y ys. literal_eval L t \<noteq> Inr (PList (y # ys))"
  show "fst (initval L t w) = PList []"
    using h by (simp add: initval_def split: sum.splits pyval.splits list.splits)
  show "simtime (snd (initval L t w)) = simtime w"
    using h by (simp add: initval_def emit_def split: sum.splits pyval.splits list.splits)
  show "\<exists>m. snd (initval L t w) = emit (Log m) w"
    using h by (auto simp: initval_def split: sum.splits pyval.splits list.splits)
qed

theorem initval_seeds_time_or_reports_witness:
  "literal_eval frag_lib ''[5, 'a', 'b']'' = Inr (PList [PInt 5, PStr ''a'', PStr ''b''])
   \<and> is_int_or_float (PInt 5)
   \<and> initval frag_lib ''[5, 'a', 'b']'' (initial_world no_files)
       = (PList [PStr ''a'', PStr ''b''], (initial_world no_files)\<lparr>simtime := PInt 5\<rparr>)"
proof -
  have e: "literal_eval frag_lib ''[5, 'a', 'b']'' = Inr (PList [PInt 5, PStr ''a'', PStr ''b''])"
    by code_simp
  from initval_seeds_time_or_reports
         [of frag_lib "''[5, 'a', 'b']''" "PInt 5" "[PStr ''a'', PStr ''b'']" "initial_world no_files"] e
  show ?thesis by simp
qed

text \<open>
  The claim C8 as stated fails: \<open>"['a', 1]"\<close> is malformed in its sense (the first
  element is not a number), yet \<open>initval\<close> returns \<open>[1]\<close>, not the empty list.
\<close>

theorem initval_nonempty_on_malformed_counterexample:
  "literal_eval frag_lib ''['a', 1]'' = Inr (PList [PStr ''a'', PInt 1])
   \<and> \<not> is_int_or_float (PStr ''a'')
   \<and> fst (initval frag_lib ''['a', 1]'' (initial_world no_files)) = PList [PInt 1]"
  by code_simp

subsection \<open>What the steps of read and write leave alone\<close>

lemma emit_fields [simp]:
  "simtime (emit e w) = simtime w" "s_acc (emit e w) = s_acc w" "olds (emit e w) = olds w"
  "delay (emit e w) = delay w" "retrycount (emit e w) = retrycount w"
  "inpath (emit e w) = inpath w" "outpath (emit e w) = outpath w"
  "zmq_ports (emit e w) = zmq_ports w" "files (emit e w) = files w"
  "writable (emit e w) = writable w" "peer (emit e w) = peer w" "tick (emit e w) = tick w"
  "trace (emit e w) = trace w @ [e]"
  by (simp_all add: emit_def)


lemma sleep_ok: "0 \<le> d \<Longrightarrow> \<exists>w'. sleep d w = Inr w'"
  by (simp add: sleep_def)

lemma open_read_world [simp]: "snd (open_read p w) = emit (OpenRead p) w"
  by (simp add: open_read_def)


















subsection \<open>Logical time\<close>











text \<open>
  C5. The socket branch of \<open>write\<close> does not return. With a socket registered under
  the name \<open>"1"\<close>, \<open>write("1", "u", [5], 2)\<close> at time 0 sends \<open>[5]\<close> and then goes on to the
  file branch: it writes \<open>[2, 5]\<close> to \<open>./out1/u\<close> and moves the logical time to 2. With a
  socket registered under the name \<open>"ctrl"\<close>, the same call sends \<open>[5]\<close> and then reports
  an invalid port identifier.
\<close>

theorem write_socket_port_falls_through:
  "trace (snd (concore_write frag_lib (PStr ''1'') (PStr ''u'') (PList [PInt 5]) (PInt 2) (socket_world ''1'')))
     = [SendJson ''1'' (PList [PInt 5]), OpenWrite ''./out1/u'', FileWrite ''./out1/u'' ''[2, 5]'']
   \<and> simtime (socket_world ''1'') = PInt 0
   \<and> simtime (snd (concore_write frag_lib (PStr ''1'') (PStr ''u'') (PList [PInt 5]) (PInt 2) (socket_world ''1'')))
     = PInt 2
   \<and> trace (snd (concore_write frag_lib (PStr ''ctrl'') (PStr ''u'') (PList [PInt 5]) (PInt 2) (socket_world ''ctrl'')))
     = [SendJson ''ctrl'' (PList [PInt 5]), Log InvalidPortIdentifier]"
  by code_simp

text \<open>
  C4. Exceptions do leave \<open>read\<close> and \<open>write\<close>. The default \<open>"{[1]: 2}"\<close> makes
  \<open>literal_eval\<close> raise \<open>TypeError\<close>, which the handler for \<open>SyntaxError\<close> and
  \<open>ValueError\<close> around the parse of the default lets through; the port identifier
  \<open>None\<close> makes \<open>int\<close> raise \<open>TypeError\<close>, which the handler for \<open>ValueError\<close> lets
  through, in \<open>read\<close> and in \<open>write\<close>.
\<close>

theorem read_write_raise_type_error:
  "fst (read frag_lib (PInt 1) (PStr ''u'') (PStr ''{[1]: 2}'') (initial_world no_files)) = Inl TypeError
   \<and> fst (read frag_lib PNone (PStr ''u'') (PStr ''[0, 7]'') (initial_world no_files)) = Inl TypeError
   \<and> fst (concore_write frag_lib PNone (PStr ''u'') (PList []) (PInt 0) (initial_world no_files))
       = Some TypeError"
  by code_simp

subsection \<open>The parameter grammar\<close>






subsection \<open>Round trip\<close>




end
